theory Spec2Isabelle
  imports Main "HOL-Library.Word"
begin

section \<open>Machine types of \<^verbatim>\<open>pcm2mp3.h\<close>\<close>

text \<open>
  The class \<^verbatim>\<open>pipelines::pcm2mp3\<close> computes with three integer types:
  \<^verbatim>\<open>unsigned int\<close> (32 bits, arithmetic modulo \<open>2 ^ 32\<close>), \<^verbatim>\<open>std::size_t\<close>
  (64 bits on the LP64 targets GStreamer is built for) and \<^verbatim>\<open>guint64\<close>.
  A \<^verbatim>\<open>char\<close> of a PCM buffer is one byte.
\<close>

type_synonym uint = "32 word"
type_synonym size_t = "64 word"
type_synonym guint64 = "64 word"
type_synonym byte = "8 word"

text \<open>
  \<^verbatim>\<open>data.size()\<close> of a \<^verbatim>\<open>std::vector<char>\<close>, as a \<^verbatim>\<open>std::size_t\<close>. A vector
  holds fewer than \<open>2 ^ 64\<close> bytes; a statement that reads the length of the list
  rather than \<open>size_v\<close> assumes as much.
\<close>

definition size_v :: "byte list \<Rightarrow> size_t" where
  "size_v data = of_nat (length data)"

definition G_MAXUINT64 :: guint64 where
  "G_MAXUINT64 = - 1"

definition GST_SECOND :: guint64 where
  "GST_SECOND = 1000000000"

section \<open>The GStreamer collaborator\<close>

datatype GstFlowReturn =
    GST_FLOW_CUSTOM_SUCCESS_2
  | GST_FLOW_CUSTOM_SUCCESS_1
  | GST_FLOW_CUSTOM_SUCCESS
  | GST_FLOW_OK
  | GST_FLOW_NOT_LINKED
  | GST_FLOW_FLUSHING
  | GST_FLOW_EOS
  | GST_FLOW_NOT_NEGOTIATED
  | GST_FLOW_ERROR
  | GST_FLOW_NOT_SUPPORTED
  | GST_FLOW_CUSTOM_ERROR
  | GST_FLOW_CUSTOM_ERROR_1
  | GST_FLOW_CUSTOM_ERROR_2

datatype GstState =
    GST_STATE_VOID_PENDING
  | GST_STATE_NULL
  | GST_STATE_READY
  | GST_STATE_PAUSED
  | GST_STATE_PLAYING

datatype GstStateChangeReturn =
    GST_STATE_CHANGE_FAILURE
  | GST_STATE_CHANGE_SUCCESS
  | GST_STATE_CHANGE_ASYNC
  | GST_STATE_CHANGE_NO_PREROLL

text \<open>
  Modelled from the spec: \<^verbatim>\<open>gst_flow_get_name\<close> belongs to the GStreamer library and is
  not part of the header. The spec calls its result "the collaborator's diagnostic
  code/name"; the strings are the ones GStreamer documents for each flow return.
\<close>

fun gst_flow_get_name :: "GstFlowReturn \<Rightarrow> string" where
  "gst_flow_get_name GST_FLOW_CUSTOM_SUCCESS_2 = ''custom-success''"
| "gst_flow_get_name GST_FLOW_CUSTOM_SUCCESS_1 = ''custom-success''"
| "gst_flow_get_name GST_FLOW_CUSTOM_SUCCESS = ''custom-success''"
| "gst_flow_get_name GST_FLOW_OK = ''ok''"
| "gst_flow_get_name GST_FLOW_NOT_LINKED = ''not-linked''"
| "gst_flow_get_name GST_FLOW_FLUSHING = ''flushing''"
| "gst_flow_get_name GST_FLOW_EOS = ''eos''"
| "gst_flow_get_name GST_FLOW_NOT_NEGOTIATED = ''not-negotiated''"
| "gst_flow_get_name GST_FLOW_ERROR = ''error''"
| "gst_flow_get_name GST_FLOW_NOT_SUPPORTED = ''not-supported''"
| "gst_flow_get_name GST_FLOW_CUSTOM_ERROR = ''custom-error''"
| "gst_flow_get_name GST_FLOW_CUSTOM_ERROR_1 = ''custom-error''"
| "gst_flow_get_name GST_FLOW_CUSTOM_ERROR_2 = ''custom-error''"

text \<open>
  Modelled from the spec: \<^verbatim>\<open>gst_util_uint64_scale (val, num, denom)\<close> belongs to the
  GStreamer library. The spec describes it as the "exact rational scaling, not floating
  point" \<open>val \<times> num / denom\<close>; the result is a \<^verbatim>\<open>guint64\<close>, and GStreamer documents
  that the quotient is truncated, that an overflow returns \<^verbatim>\<open>G_MAXUINT64\<close>, and that
  a zero denominator is refused with \<^verbatim>\<open>G_MAXUINT64\<close>.
\<close>

definition gst_util_uint64_scale :: "guint64 \<Rightarrow> guint64 \<Rightarrow> guint64 \<Rightarrow> guint64" where
  "gst_util_uint64_scale val num denom =
     (if denom = 0 then G_MAXUINT64
      else if unat val * unat num div unat denom < 2 ^ 64
           then of_nat (unat val * unat num div unat denom)
           else G_MAXUINT64)"

text \<open>
  A \<^verbatim>\<open>GstBuffer\<close> as \<^verbatim>\<open>push_pcm_data\<close> builds it: the wrapped bytes,
  \<^verbatim>\<open>GST_BUFFER_PTS\<close> and \<^verbatim>\<open>GST_BUFFER_DURATION\<close>.
\<close>

record GstBuffer =
  buf_data :: "byte list"
  buf_pts :: guint64
  buf_duration :: guint64

section \<open>The class \<^verbatim>\<open>pcm2mp3\<close>\<close>

text \<open>
  The private members of the class, named as in the header without the trailing
  underscore (\<open>rate\<close> is \<^verbatim>\<open>rate_\<close>, and so on). \<open>pipeline\<close> is \<open>None\<close> for
  \<^verbatim>\<open>nullptr\<close> and otherwise holds the state last requested with
  \<^verbatim>\<open>gst_element_set_state\<close>. \<open>appsrc\<close> stands for the element behind the pointer:
  every buffer handed to \<^verbatim>\<open>gst_app_src_push_buffer\<close>, oldest first, with the flow
  return it got. \<open>processing_thread\<close> is \<^verbatim>\<open>processing_thread_.joinable()\<close>.
\<close>

record pcm2mp3 =
  rate :: uint
  channels :: uint
  depth :: uint
  format :: string
  pipeline :: "GstState option"
  appsrc :: "(GstBuffer \<times> GstFlowReturn) list"
  processing_thread :: bool
  processing_stop :: bool
  pts :: guint64

text \<open>
  How a call ends. Every \<^verbatim>\<open>throw\<close> of the header is a \<^verbatim>\<open>std::runtime_error\<close>
  that differs only in its message; \<open>Undefined_behaviour\<close> is an integer division by
  zero, \<open>Std_terminate\<close> is a call of \<^verbatim>\<open>std::terminate\<close>, \<open>Never_returns\<close> is a
  \<^verbatim>\<open>join\<close> that waits for ever.
  The members changed before a \<^verbatim>\<open>throw\<close> stay changed, so every operation returns
  the state next to the outcome.
\<close>

datatype outcome =
    Returns
  | Throws string
  | Undefined_behaviour
  | Std_terminate
  | Never_returns

text \<open>The error kinds of the spec are the messages of the header.\<close>

definition PipelineBuildError_pipeline :: outcome where
  "PipelineBuildError_pipeline = Throws ''pcm2mp3 -> failed to create GStreamer pipeline''"

definition PipelineBuildError_elements :: outcome where
  "PipelineBuildError_elements = Throws ''pcm2mp3 -> failed to create GStreamer elements''"

definition PipelineBuildError_link :: outcome where
  "PipelineBuildError_link = Throws ''pcm2mp3 -> failed to link GStreamer elements''"

definition StateTransitionError :: outcome where
  "StateTransitionError = Throws ''pcm2mp3 -> failed to set pipeline to PLAYING state''"

definition InvalidBufferSizeError :: outcome where
  "InvalidBufferSizeError =
     Throws ''pcm2mp3 -> invalid PCM data size, not aligned with sample size''"

definition PushError :: "string \<Rightarrow> outcome" where
  "PushError name = Throws (''pcm2mp3 -> failed to push buffer into appsrc: '' @ name)"

text \<open>
  \<^verbatim>\<open>const std::size_t sample_size = channels_ * (depth_ / 8);\<close>
  The product is taken in \<^verbatim>\<open>unsigned int\<close> and widened afterwards.
\<close>

definition sample_size :: "pcm2mp3 \<Rightarrow> size_t" where
  "sample_size s = ucast (channels s * (depth s div 8))"

text \<open>
  \<^verbatim>\<open>gst_util_uint64_scale (data.size() / sample_size, GST_SECOND, rate_)\<close>, the
  duration in nanoseconds of a buffer that passed the alignment check.
\<close>

definition buffer_duration :: "pcm2mp3 \<Rightarrow> byte list \<Rightarrow> guint64" where
  "buffer_duration s data =
     gst_util_uint64_scale (size_v data div sample_size s) GST_SECOND (ucast (rate s))"

text \<open>
  \<^verbatim>\<open>push_pcm_data\<close>. The Source stage is the parameter \<open>src\<close>: the flow return of
  \<^verbatim>\<open>gst_app_src_push_buffer\<close> for the component as it is at the call and the buffer
  pushed. \<^verbatim>\<open>data.size() % sample_size\<close> with a sample size of zero is an integer
  division by zero. The counter is read and then advanced before the buffer is pushed,
  so a rejected push has advanced it all the same.
\<close>

definition push_pcm_data ::
  "(pcm2mp3 \<Rightarrow> GstBuffer \<Rightarrow> GstFlowReturn) \<Rightarrow> byte list \<Rightarrow> pcm2mp3 \<Rightarrow> outcome \<times> pcm2mp3" where
  "push_pcm_data src data s =
     (if data = [] then (Returns, s)
      else if sample_size s = 0 then (Undefined_behaviour, s)
      else if size_v data mod sample_size s \<noteq> 0 then (InvalidBufferSizeError, s)
      else
        let duration = buffer_duration s data;
            current_pts = pts s;
            s1 = s\<lparr>pts := pts s + duration\<rparr>;
            gst_buffer = \<lparr>buf_data = data, buf_pts = current_pts, buf_duration = duration\<rparr>;
            ret = src s1 gst_buffer;
            s2 = s1\<lparr>appsrc := appsrc s1 @ [(gst_buffer, ret)]\<rparr>
        in if ret \<noteq> GST_FLOW_OK then (PushError (gst_flow_get_name ret), s2)
           else (Returns, s2))"

text \<open>
  \<^verbatim>\<open>push_silence\<close>. The product \<^verbatim>\<open>rate_ * duration_ms\<close> is taken in
  \<^verbatim>\<open>unsigned int\<close>, divided there, and widened to \<^verbatim>\<open>std::size_t\<close> afterwards.
  The allocation of the vector is taken to succeed.
\<close>

definition silence_num_samples :: "pcm2mp3 \<Rightarrow> uint \<Rightarrow> size_t" where
  "silence_num_samples s duration_ms = ucast ((rate s * duration_ms) div 1000)"

definition silence_buffer_size :: "pcm2mp3 \<Rightarrow> uint \<Rightarrow> size_t" where
  "silence_buffer_size s duration_ms = silence_num_samples s duration_ms * sample_size s"

definition push_silence ::
  "(pcm2mp3 \<Rightarrow> GstBuffer \<Rightarrow> GstFlowReturn) \<Rightarrow> uint \<Rightarrow> pcm2mp3 \<Rightarrow> outcome \<times> pcm2mp3" where
  "push_silence src duration_ms s =
     (let silence = replicate (unat (silence_buffer_size s duration_ms)) (0 :: byte)
      in push_pcm_data src silence s)"

text \<open>
  The constructor with \<^verbatim>\<open>initialize_pipeline\<close>. What GStreamer answers is the record
  \<open>gst_factory\<close>: whether \<^verbatim>\<open>gst_pipeline_new\<close>, each \<^verbatim>\<open>gst_element_factory_make\<close>
  and \<^verbatim>\<open>gst_element_link_many\<close> succeed. A constructor that throws leaves no object.
\<close>

record gst_factory =
  pipeline_new :: bool
  make_appsrc :: bool
  make_audioconvert :: bool
  make_lamemp3enc :: bool
  make_appsink :: bool
  link_many :: bool

definition initialize_pipeline :: "gst_factory \<Rightarrow> pcm2mp3 \<Rightarrow> outcome \<times> pcm2mp3" where
  "initialize_pipeline g s =
     (if \<not> pipeline_new g then (PipelineBuildError_pipeline, s)
      else
        let s1 = s\<lparr>pipeline := Some GST_STATE_NULL\<rparr>
        in if make_appsrc g \<and> make_audioconvert g \<and> make_lamemp3enc g \<and> make_appsink g
           then (if link_many g then (Returns, s1) else (PipelineBuildError_link, s1))
           else (PipelineBuildError_elements, s1))"

definition construct :: "gst_factory \<Rightarrow> uint \<Rightarrow> uint \<Rightarrow> uint \<Rightarrow> string \<Rightarrow> outcome \<times> pcm2mp3" where
  "construct g r c d f =
     initialize_pipeline g
       \<lparr>rate = r, channels = c, depth = d, format = f, pipeline = None, appsrc = [],
        processing_thread = False, processing_stop = False, pts = 0\<rparr>"

text \<open>The default arguments of the constructor, on a GStreamer that builds every stage.\<close>

definition gst_ok :: gst_factory where
  "gst_ok = \<lparr>pipeline_new = True, make_appsrc = True, make_audioconvert = True,
            make_lamemp3enc = True, make_appsink = True, link_many = True\<rparr>"

definition default_pcm2mp3 :: pcm2mp3 where
  "default_pcm2mp3 = snd (construct gst_ok 32000 1 16 ''S16LE'')"

text \<open>
  \<^verbatim>\<open>gst_element_set_state (pipeline_, st)\<close>: the state requested is recorded in a
  pipeline that exists.
\<close>

definition set_state :: "GstState \<Rightarrow> pcm2mp3 \<Rightarrow> pcm2mp3" where
  "set_state st s = s\<lparr>pipeline := map_option (\<lambda>_. st) (pipeline s)\<rparr>"

text \<open>
  \<^verbatim>\<open>start\<close>. \<open>ret\<close> is what \<^verbatim>\<open>gst_element_set_state (pipeline_, GST_STATE_PLAYING)\<close>
  returns. Move-assigning to a \<^verbatim>\<open>std::thread\<close> that is still joinable calls
  \<^verbatim>\<open>std::terminate\<close>. The body of the consumer thread runs beside the caller and is
  not part of this sequential model; only its handle is.
\<close>

definition start :: "GstStateChangeReturn \<Rightarrow> pcm2mp3 \<Rightarrow> outcome \<times> pcm2mp3" where
  "start ret s =
     (let s1 = set_state GST_STATE_PLAYING (s\<lparr>processing_stop := False\<rparr>)
      in if ret = GST_STATE_CHANGE_FAILURE then (StateTransitionError, s1)
         else if processing_thread s1 then (Std_terminate, s1)
         else (Returns, s1\<lparr>processing_thread := True\<rparr>))"

text \<open>
  \<^verbatim>\<open>stop\<close>. \<open>consumer_exits\<close> says whether the consumer loop comes back from its
  blocking pull, sees the flag and ends; \<^verbatim>\<open>join\<close> returns only then. It is asked
  only when the thread is joinable.
\<close>

definition stop :: "bool \<Rightarrow> pcm2mp3 \<Rightarrow> outcome \<times> pcm2mp3" where
  "stop consumer_exits s =
     (let s1 = s\<lparr>processing_stop := True\<rparr>
      in if processing_thread s1 \<and> \<not> consumer_exits then (Never_returns, s1)
         else
           let s2 = (if processing_thread s1 then s1\<lparr>processing_thread := False\<rparr> else s1)
           in (Returns, (if pipeline s2 \<noteq> None then set_state GST_STATE_NULL s2 else s2)))"

section \<open>Pushes from several threads\<close>

text \<open>
  \<^verbatim>\<open>pts_\<close> is a \<^verbatim>\<open>std::atomic<guint64>\<close>. Between the alignment check and the
  push, \<^verbatim>\<open>push_pcm_data\<close> touches it twice, each time atomically:
  \<^verbatim>\<open>const guint64 current_pts = pts_.load();\<close> and then \<^verbatim>\<open>pts_ += duration;\<close>.
  A thread inside \<^verbatim>\<open>push_pcm_data\<close> is its locals and the statement it is at; a step
  runs one statement of one thread on the shared object, and a schedule is the order
  in which the threads take their steps.
\<close>

datatype push_pc = At_load | At_add | At_push | At_end

record push_thread =
  th_data :: "byte list"
  th_duration :: guint64
  th_current_pts :: guint64
  th_pc :: push_pc

text \<open>
  The checks and the duration use the parameters set at construction and the argument
  only, so a thread that passes them arrives at the load with its duration computed.
\<close>

definition enter_push :: "pcm2mp3 \<Rightarrow> byte list \<Rightarrow> push_thread option" where
  "enter_push s data =
     (if data = [] then None
      else if sample_size s = 0 then None
      else if size_v data mod sample_size s \<noteq> 0 then None
      else Some \<lparr>th_data = data, th_duration = buffer_duration s data,
                 th_current_pts = 0, th_pc = At_load\<rparr>)"

definition thread_step ::
  "(pcm2mp3 \<Rightarrow> GstBuffer \<Rightarrow> GstFlowReturn) \<Rightarrow> push_thread \<Rightarrow> pcm2mp3 \<Rightarrow> push_thread \<times> pcm2mp3" where
  "thread_step src t s =
     (case th_pc t of
        At_load \<Rightarrow> (t\<lparr>th_current_pts := pts s, th_pc := At_add\<rparr>, s)
      | At_add \<Rightarrow> (t\<lparr>th_pc := At_push\<rparr>, s\<lparr>pts := pts s + th_duration t\<rparr>)
      | At_push \<Rightarrow>
          (let gst_buffer = \<lparr>buf_data = th_data t, buf_pts = th_current_pts t,
                             buf_duration = th_duration t\<rparr>;
               ret = src s gst_buffer
           in (t\<lparr>th_pc := At_end\<rparr>, s\<lparr>appsrc := appsrc s @ [(gst_buffer, ret)]\<rparr>))
      | At_end \<Rightarrow> (t, s))"

fun run ::
  "(pcm2mp3 \<Rightarrow> GstBuffer \<Rightarrow> GstFlowReturn) \<Rightarrow> nat list \<Rightarrow> push_thread list \<Rightarrow> pcm2mp3
     \<Rightarrow> push_thread list \<times> pcm2mp3" where
  "run src [] ts s = (ts, s)"
| "run src (i # sched) ts s =
     (if i < length ts
      then (case thread_step src (ts ! i) s of (t', s') \<Rightarrow> run src sched (ts[i := t']) s')
      else run src sched ts s)"

text \<open>A buffer that gets past both checks of \<^verbatim>\<open>push_pcm_data\<close>.\<close>

definition passes_validation :: "pcm2mp3 \<Rightarrow> byte list \<Rightarrow> bool" where
  "passes_validation s data \<longleftrightarrow>
     data \<noteq> [] \<and> sample_size s \<noteq> 0 \<and> size_v data mod sample_size s = 0"

text \<open>A Source stage that takes every buffer, and one that is flushing.\<close>

definition src_accepts :: "pcm2mp3 \<Rightarrow> GstBuffer \<Rightarrow> GstFlowReturn" where
  "src_accepts s b = GST_FLOW_OK"

definition src_flushing :: "pcm2mp3 \<Rightarrow> GstBuffer \<Rightarrow> GstFlowReturn" where
  "src_flushing s b = GST_FLOW_FLUSHING"

text \<open>The stream configuration: the four members the constructor sets from its arguments.\<close>

definition config :: "pcm2mp3 \<Rightarrow> uint \<times> uint \<times> uint \<times> string" where
  "config s = (rate s, channels s, depth s, format s)"

text \<open>
  Two components with a sample size of zero: one whose channel count times the bytes of a
  sample is \<open>2 ^ 32\<close>, and one with no channel.
\<close>

definition many_channels :: pcm2mp3 where
  "many_channels = snd (construct gst_ok 32000 2147483648 16 ''S16LE'')"

definition no_channels :: pcm2mp3 where
  "no_channels = snd (construct gst_ok 32000 0 16 ''S16LE'')"

text \<open>
  A thread that has entered \<^verbatim>\<open>push_pcm_data\<close> of the default component with one
  16-bit sample.
\<close>

definition one_sample :: push_thread where
  "one_sample = \<lparr>th_data = [0, 0], th_duration = 31250, th_current_pts = 0, th_pc = At_load\<rparr>"

section \<open>Arithmetic of the machine types\<close>

lemma unat_size_v: "length data < 2 ^ 64 \<Longrightarrow> unat (size_v data) = length data"
  by (simp add: size_v_def unat_of_nat)

lemma unat_ucast_32_64: "unat (ucast (w :: 32 word) :: 64 word) = unat w"
proof -
  have "unat w < 2 ^ 32" using unsigned_less [of w] by simp
  then have "unat w < 2 ^ 64" by simp
  then show ?thesis by (simp add: unsigned_ucast_eq take_bit_nat_eq_self)
qed

lemma ucast_32_64_eq_0: "(ucast (w :: 32 word) :: 64 word) = 0 \<longleftrightarrow> w = 0"
proof -
  have "(ucast w :: 64 word) = 0 \<longleftrightarrow> unat (ucast w :: 64 word) = 0"
    by (simp only: unat_0_iff)
  also have "\<dots> \<longleftrightarrow> unat w = 0" by (simp only: unat_ucast_32_64)
  finally show ?thesis by (simp only: unat_0_iff)
qed

lemma scale_exact:
  "denom \<noteq> 0 \<Longrightarrow> unat val * unat num div unat denom < 2 ^ 64 \<Longrightarrow>
   unat (gst_util_uint64_scale val num denom) = unat val * unat num div unat denom"
  by (simp add: gst_util_uint64_scale_def unat_of_nat)

lemma unat_sample_size:
  "unat (sample_size s) = (unat (channels s) * (unat (depth s) div 8)) mod 2 ^ 32"
  by (simp add: sample_size_def unat_word_ariths unat_div unat_ucast_32_64 mod_mult_right_eq)

lemma unat_sample_size_less: "unat (sample_size s) < 2 ^ 32"
  by (simp only: unat_sample_size) simp

lemma sample_size_zero: "channels s = 0 \<or> depth s < 8 \<Longrightarrow> sample_size s = 0"
proof (erule disjE)
  assume "channels s = 0"
  then show ?thesis by (simp add: sample_size_def)
next
  assume "depth s < 8"
  then have "unat (depth s) < 8" by (simp add: word_less_nat_alt)
  then have "unat (depth s div 8) = 0" by (simp add: unat_div)
  then have "depth s div 8 = 0" by (simp only: unat_0_iff)
  then show ?thesis by (simp add: sample_size_def)
qed

lemma unat_buffer_duration:
  assumes "length data < 2 ^ 64" and "rate s \<noteq> 0"
    and "(length data div unat (sample_size s)) * 1000000000 div unat (rate s) < 2 ^ 64"
  shows "unat (buffer_duration s data) =
         (length data div unat (sample_size s)) * 1000000000 div unat (rate s)"
proof -
  have n: "unat (size_v data div sample_size s) = length data div unat (sample_size s)"
    using assms(1) by (simp add: unat_div unat_size_v)
  have r: "(ucast (rate s) :: 64 word) \<noteq> 0"
    using assms(2) by (simp add: ucast_32_64_eq_0)
  show ?thesis
    unfolding buffer_duration_def
    using scale_exact [OF r, of "size_v data div sample_size s" GST_SECOND] assms(3)
    by (simp add: n unat_ucast_32_64 GST_SECOND_def)
qed

lemma unat_silence_num_samples:
  "unat (silence_num_samples s d) = (unat (rate s) * unat d) mod 2 ^ 32 div 1000"
  by (simp add: silence_num_samples_def unat_ucast_32_64 unat_div unat_word_ariths)

lemma unat_silence_num_samples_less: "unat (silence_num_samples s d) < 2 ^ 32"
proof -
  have "(unat (rate s) * unat d) mod 2 ^ 32 < (2 ^ 32 :: nat)" by simp
  then have "(unat (rate s) * unat d) mod 2 ^ 32 div 1000 < (2 ^ 32 :: nat)"
    by (rule le_less_trans [OF div_le_dividend])
  then show ?thesis by (simp only: unat_silence_num_samples)
qed

text \<open>Both factors are below \<open>2 ^ 32\<close>, so the 64-bit product does not wrap.\<close>

lemma unat_silence_buffer_size:
  "unat (silence_buffer_size s d) = unat (silence_num_samples s d) * unat (sample_size s)"
proof -
  have "unat (silence_num_samples s d) * unat (sample_size s) < 2 ^ 32 * 2 ^ 32"
    using unat_silence_num_samples_less unat_sample_size_less
    by (rule mult_strict_mono') simp_all
  then have "unat (silence_num_samples s d) * unat (sample_size s) < 2 ^ LENGTH(64)"
    by simp
  then show ?thesis
    unfolding silence_buffer_size_def by (simp only: unat_mult_lem [THEN iffD1])
qed

text \<open>A product that reaches \<open>2 ^ 32\<close> loses at least one unit of the quotient by 1000.\<close>

lemma wrapped_quotient_less:
  fixes p :: nat
  assumes "4294967296 \<le> p"
  shows "p mod 4294967296 div 1000 < p div 1000"
proof -
  define q where "q = p div 4294967296"
  define r where "r = p mod 4294967296"
  have p: "p = 4294967296 * q + r"
    unfolding q_def r_def by simp
  have "4294967296 div 4294967296 \<le> p div (4294967296 :: nat)"
    using assms by (rule div_le_mono)
  then have "1 \<le> q" by (simp add: q_def)
  then have "4294967296 * 1 \<le> 4294967296 * q" by (rule mult_le_mono2)
  with p have "r + 1000 \<le> p" by linarith
  then have "(r + 1000) div 1000 \<le> p div 1000" by (rule div_le_mono)
  then show ?thesis by (simp add: r_def)
qed

section \<open>The outcomes are distinct\<close>

lemma push_error_not_invalid: "PushError n \<noteq> InvalidBufferSizeError"
  by (simp add: PushError_def InvalidBufferSizeError_def)

lemma push_error_not_returns: "PushError n \<noteq> Returns"
  by (simp add: PushError_def)

lemma push_error_not_ub: "PushError n \<noteq> Undefined_behaviour"
  by (simp add: PushError_def)

lemma invalid_not_returns: "InvalidBufferSizeError \<noteq> Returns"
  by (simp add: InvalidBufferSizeError_def)

lemma invalid_not_ub: "InvalidBufferSizeError \<noteq> Undefined_behaviour"
  by (simp add: InvalidBufferSizeError_def)

section \<open>The push operations\<close>

text \<open>What \<^verbatim>\<open>push_pcm_data\<close> does with a buffer that passes both checks.\<close>

lemma push_valid:
  assumes "passes_validation s data"
  shows "push_pcm_data src data s =
    (let b = \<lparr>buf_data = data, buf_pts = pts s, buf_duration = buffer_duration s data\<rparr>;
         s1 = s\<lparr>pts := pts s + buffer_duration s data\<rparr>;
         ret = src s1 b
     in (if ret \<noteq> GST_FLOW_OK then PushError (gst_flow_get_name ret) else Returns,
         s1\<lparr>appsrc := appsrc s @ [(b, ret)]\<rparr>))"
  using assms by (simp add: passes_validation_def push_pcm_data_def Let_def)

lemma push_valid_effect:
  assumes "passes_validation s data"
  shows "map fst (appsrc (snd (push_pcm_data src data s))) =
           map fst (appsrc s) @ [\<lparr>buf_data = data, buf_pts = pts s,
                                    buf_duration = buffer_duration s data\<rparr>]"
    and "pts (snd (push_pcm_data src data s)) = pts s + buffer_duration s data"
  by (simp_all add: push_valid [OF assms] Let_def)

lemma push_pcm_data_config:
  "rate (snd (push_pcm_data src data s)) = rate s
   \<and> channels (snd (push_pcm_data src data s)) = channels s
   \<and> depth (snd (push_pcm_data src data s)) = depth s
   \<and> format (snd (push_pcm_data src data s)) = format s"
  by (simp add: push_pcm_data_def Let_def)

lemma passes_validation_frame:
  "channels s' = channels s \<Longrightarrow> depth s' = depth s \<Longrightarrow>
   passes_validation s' data = passes_validation s data"
  by (simp add: passes_validation_def sample_size_def)

lemma buffer_duration_frame:
  "channels s' = channels s \<Longrightarrow> depth s' = depth s \<Longrightarrow> rate s' = rate s \<Longrightarrow>
   buffer_duration s' data = buffer_duration s data"
  by (simp add: buffer_duration_def sample_size_def)

lemma push_pcm_data_ub_iff:
  "fst (push_pcm_data src data s) = Undefined_behaviour \<longleftrightarrow> data \<noteq> [] \<and> sample_size s = 0"
  by (simp add: push_pcm_data_def Let_def push_error_not_ub invalid_not_ub)

lemma push_silence_empty:
  "sample_size s = 0 \<Longrightarrow> push_silence src d s = (Returns, s)"
  by (simp add: push_silence_def silence_buffer_size_def push_pcm_data_def)

lemma push_silence_forwards:
  "push_silence src duration_ms s =
     push_pcm_data src
       (replicate (unat (silence_num_samples s duration_ms) * unat (sample_size s)) 0) s"
  by (simp add: push_silence_def unat_silence_buffer_size)

section \<open>Stopping\<close>

text \<open>\<^verbatim>\<open>stop\<close> by cases on \<^verbatim>\<open>processing_thread_.joinable()\<close>.\<close>

lemma stop_not_joinable:
  "\<not> processing_thread s \<Longrightarrow>
   stop e s = (Returns, s\<lparr>processing_stop := True,
                           pipeline := map_option (\<lambda>_. GST_STATE_NULL) (pipeline s)\<rparr>)"
  by (cases "pipeline s") (simp_all add: stop_def set_state_def Let_def)

lemma stop_joinable:
  "processing_thread s \<Longrightarrow>
   stop e s = (if e then (Returns, s\<lparr>processing_stop := True, processing_thread := False,
                           pipeline := map_option (\<lambda>_. GST_STATE_NULL) (pipeline s)\<rparr>)
               else (Never_returns, s\<lparr>processing_stop := True\<rparr>))"
  by (cases "pipeline s") (simp_all add: stop_def set_state_def Let_def)

section \<open>Schedules of two pushes\<close>

lemma enter_push_valid:
  "passes_validation s data \<Longrightarrow>
   enter_push s data = Some \<lparr>th_data = data, th_duration = buffer_duration s data,
                              th_current_pts = 0, th_pc = At_load\<rparr>"
  by (simp add: enter_push_def passes_validation_def)

text \<open>
  A thread that takes its three steps with no other thread in between leaves the object
  as the sequential \<^verbatim>\<open>push_pcm_data\<close> does.
\<close>

lemma run_alone:
  assumes "passes_validation s data" and "enter_push s data = Some t"
  shows "snd (run src [0, 0, 0] [t] s) = snd (push_pcm_data src data s)"
proof -
  have t: "t = \<lparr>th_data = data, th_duration = buffer_duration s data,
                 th_current_pts = 0, th_pc = At_load\<rparr>"
    using assms by (simp add: enter_push_valid)
  show ?thesis
    by (simp add: t thread_step_def push_valid [OF assms(1)] Let_def)
qed

text \<open>
  Two threads that both load before either adds: both buffers carry the counter's value
  from before the two pushes, and the counter ends at the sum.
\<close>

lemma run_interleaved:
  assumes "enter_push s b1 = Some t1" and "enter_push s b2 = Some t2"
    and "passes_validation s b1" and "passes_validation s b2"
  shows "map fst (appsrc (snd (run src [0, 1, 0, 1, 0, 1] [t1, t2] s))) =
           map fst (appsrc s) @
             [\<lparr>buf_data = b1, buf_pts = pts s, buf_duration = buffer_duration s b1\<rparr>,
              \<lparr>buf_data = b2, buf_pts = pts s, buf_duration = buffer_duration s b2\<rparr>]"
    and "pts (snd (run src [0, 1, 0, 1, 0, 1] [t1, t2] s)) =
           pts s + buffer_duration s b1 + buffer_duration s b2"
proof -
  have t: "t1 = \<lparr>th_data = b1, th_duration = buffer_duration s b1,
                  th_current_pts = 0, th_pc = At_load\<rparr>"
     "t2 = \<lparr>th_data = b2, th_duration = buffer_duration s b2,
                  th_current_pts = 0, th_pc = At_load\<rparr>"
    using assms by (simp_all add: enter_push_valid)
  show "map fst (appsrc (snd (run src [0, 1, 0, 1, 0, 1] [t1, t2] s))) =
           map fst (appsrc s) @
             [\<lparr>buf_data = b1, buf_pts = pts s, buf_duration = buffer_duration s b1\<rparr>,
              \<lparr>buf_data = b2, buf_pts = pts s, buf_duration = buffer_duration s b2\<rparr>]"
    by (simp add: t thread_step_def Let_def)
  show "pts (snd (run src [0, 1, 0, 1, 0, 1] [t1, t2] s)) =
           pts s + buffer_duration s b1 + buffer_duration s b2"
    by (simp add: t thread_step_def Let_def)
qed

section \<open>The components of the examples\<close>

lemma default_eq:
  "default_pcm2mp3 = \<lparr>rate = 32000, channels = 1, depth = 16, format = ''S16LE'',
     pipeline = Some GST_STATE_NULL, appsrc = [], processing_thread = False,
     processing_stop = False, pts = 0\<rparr>"
  by (simp add: default_pcm2mp3_def construct_def initialize_pipeline_def gst_ok_def)

lemma sample_size_default: "sample_size default_pcm2mp3 = 2"
  by (simp add: default_eq sample_size_def)

lemma passes_validation_default:
  "passes_validation default_pcm2mp3 [0, 0]" "passes_validation default_pcm2mp3 [0, 0, 0, 0]"
  by (simp_all add: passes_validation_def sample_size_default size_v_def)

lemma buffer_duration_default:
  "buffer_duration default_pcm2mp3 [0, 0] = 31250"
  "buffer_duration default_pcm2mp3 [0, 0, 0, 0] = 62500"
  by (simp_all add: buffer_duration_def sample_size_def size_v_def default_eq
      gst_util_uint64_scale_def GST_SECOND_def)

lemma many_channels_eq:
  "many_channels = \<lparr>rate = 32000, channels = 2147483648, depth = 16, format = ''S16LE'',
     pipeline = Some GST_STATE_NULL, appsrc = [], processing_thread = False,
     processing_stop = False, pts = 0\<rparr>"
  by (simp add: many_channels_def construct_def initialize_pipeline_def gst_ok_def)

lemma no_channels_eq:
  "no_channels = \<lparr>rate = 32000, channels = 0, depth = 16, format = ''S16LE'',
     pipeline = Some GST_STATE_NULL, appsrc = [], processing_thread = False,
     processing_stop = False, pts = 0\<rparr>"
  by (simp add: no_channels_def construct_def initialize_pipeline_def gst_ok_def)

lemma silence_num_samples_default:
  "silence_num_samples default_pcm2mp3 1000 = 32000"
  "silence_num_samples default_pcm2mp3 134217 = 4294944"
  "silence_num_samples default_pcm2mp3 134218 = 8"
  by (simp_all add: silence_num_samples_def default_eq)

lemma silence_buffer_size_default:
  "silence_buffer_size default_pcm2mp3 1000 = 64000"
  "silence_buffer_size default_pcm2mp3 134217 = 8589888"
  "silence_buffer_size default_pcm2mp3 134218 = 16"
  by (simp_all add: silence_buffer_size_def silence_num_samples_default sample_size_default)

lemma buffer_duration_one_second:
  "buffer_duration default_pcm2mp3 (replicate 64000 0) = 1000000000"
  by (simp add: buffer_duration_def sample_size_def size_v_def default_eq
      gst_util_uint64_scale_def GST_SECOND_def)

lemma passes_validation_one_second:
  "passes_validation default_pcm2mp3 (replicate 64000 0)"
proof -
  have "replicate 64000 (0 :: byte) \<noteq> []"
    by (simp only: replicate_empty)
  then show ?thesis
    by (simp add: passes_validation_def sample_size_default size_v_def)
qed

section \<open>Claims\<close>

text \<open>
  Claim C1, as the header has it. For a non-empty buffer whose length is a multiple of the
  sample size, \<^verbatim>\<open>push_pcm_data\<close> never ends in the size error nor in a division by
  zero, and it returns normally whenever the Source stage takes the buffer. Whatever the
  Source stage answers, exactly one buffer is handed to it, tagged with the counter's
  value before the advance and with the duration, and the counter has advanced by that
  duration (modulo \<open>2 ^ 64\<close>). The duration is \<^verbatim>\<open>gst_util_uint64_scale\<close> of the
  sample count; for a rate above zero whose scaled value fits 64 bits it is the exact
  truncated quotient \<open>(len / sample_size) \<times> 10\<^sup>9 / rate\<close>.
\<close>
theorem push_pcm_data_aligned:
  assumes "data \<noteq> []" and "length data < 2 ^ 64"
    and "length data mod unat (sample_size s) = 0"
  shows "fst (push_pcm_data src data s) \<noteq> InvalidBufferSizeError
    \<and> fst (push_pcm_data src data s) \<noteq> Undefined_behaviour
    \<and> (src (s\<lparr>pts := pts s + buffer_duration s data\<rparr>)
            \<lparr>buf_data = data, buf_pts = pts s, buf_duration = buffer_duration s data\<rparr> = GST_FLOW_OK
         \<longrightarrow> push_pcm_data src data s =
              (Returns, s\<lparr>pts := pts s + buffer_duration s data,
                 appsrc := appsrc s @ [(\<lparr>buf_data = data, buf_pts = pts s,
                    buf_duration = buffer_duration s data\<rparr>, GST_FLOW_OK)]\<rparr>))
    \<and> (\<exists>ret. appsrc (snd (push_pcm_data src data s)) =
           appsrc s @ [(\<lparr>buf_data = data, buf_pts = pts s,
                         buf_duration = buffer_duration s data\<rparr>, ret)])
    \<and> pts (snd (push_pcm_data src data s)) = pts s + buffer_duration s data
    \<and> (rate s \<noteq> 0 \<and> (length data div unat (sample_size s)) * 1000000000 div unat (rate s) < 2 ^ 64
         \<longrightarrow> unat (buffer_duration s data) =
              (length data div unat (sample_size s)) * 1000000000 div unat (rate s))"
proof -
  have nz: "sample_size s \<noteq> 0"
  proof
    assume "sample_size s = 0"
    with assms(3) have "length data = 0" by simp
    with assms(1) show False by simp
  qed
  have "unat (size_v data mod sample_size s) = 0"
    using assms(2,3) by (simp add: unat_mod unat_size_v)
  then have al: "size_v data mod sample_size s = 0"
    by (simp only: unat_0_iff)
  have v: "passes_validation s data"
    using assms(1) nz al by (simp add: passes_validation_def)
  show ?thesis
    using assms(2) by (simp add: push_valid [OF v] Let_def push_error_not_invalid push_error_not_ub
        invalid_not_returns [symmetric] unat_buffer_duration)
qed

text \<open>One 16-bit sample pushed into the default component, on a Source stage that accepts.\<close>

theorem push_pcm_data_aligned_witness:
  "[0, 0 :: byte] \<noteq> [] \<and> length [0, 0 :: byte] < 2 ^ 64
   \<and> length [0, 0 :: byte] mod unat (sample_size default_pcm2mp3) = 0
   \<and> rate default_pcm2mp3 \<noteq> 0
   \<and> push_pcm_data src_accepts [0, 0] default_pcm2mp3 =
        (Returns, default_pcm2mp3\<lparr>pts := 31250,
           appsrc := [(\<lparr>buf_data = [0, 0], buf_pts = 0, buf_duration = 31250\<rparr>, GST_FLOW_OK)]\<rparr>)
   \<and> unat (buffer_duration default_pcm2mp3 [0, 0]) = 1 * 1000000000 div 32000"
  using push_pcm_data_aligned [of "[0, 0]" default_pcm2mp3 src_accepts]
  by (simp add: sample_size_default buffer_duration_default src_accepts_def)
    (simp add: default_eq)

text \<open>
  The same aligned buffer on a Source stage that answers \<^verbatim>\<open>GST_FLOW_FLUSHING\<close>:
  the call fails.
\<close>

theorem push_pcm_data_aligned_counterexample:
  "[0, 0 :: byte] \<noteq> [] \<and> length [0, 0 :: byte] mod unat (sample_size default_pcm2mp3) = 0
   \<and> fst (push_pcm_data src_flushing [0, 0] default_pcm2mp3) = PushError ''flushing''
   \<and> fst (push_pcm_data src_flushing [0, 0] default_pcm2mp3) \<noteq> Returns"
  by (simp add: push_valid [OF passes_validation_default(1)] Let_def src_flushing_def
      sample_size_default push_error_not_returns)

text \<open>
  Claim C2. Two buffers that pass validation, pushed one after the other, reach the Source
  stage with timestamps \<open>t1\<close> and \<open>t2 = t1 + duration b1\<close>, whatever the Source stage
  answers to either push.
\<close>
theorem sequential_pushes_back_to_back:
  assumes "passes_validation s b1" and "passes_validation s b2"
    and "push_pcm_data src b1 s = (o1, s1)" and "push_pcm_data src b2 s1 = (o2, s2)"
  shows "map fst (appsrc s2) =
           map fst (appsrc s) @
             [\<lparr>buf_data = b1, buf_pts = pts s, buf_duration = buffer_duration s b1\<rparr>,
              \<lparr>buf_data = b2, buf_pts = pts s + buffer_duration s b1,
                 buf_duration = buffer_duration s b2\<rparr>]"
proof -
  have s1: "s1 = snd (push_pcm_data src b1 s)" using assms(3) by simp
  have s2: "s2 = snd (push_pcm_data src b2 s1)" using assms(4) by simp
  have cfg: "channels s1 = channels s" "depth s1 = depth s" "rate s1 = rate s"
    by (simp_all add: s1 push_pcm_data_config)
  have v2: "passes_validation s1 b2"
    using assms(2) by (simp only: passes_validation_frame [OF cfg(1,2)])
  have d2: "buffer_duration s1 b2 = buffer_duration s b2"
    using cfg by (rule buffer_duration_frame)
  have a1: "map fst (appsrc s1) = map fst (appsrc s) @
      [\<lparr>buf_data = b1, buf_pts = pts s, buf_duration = buffer_duration s b1\<rparr>]"
    and p1: "pts s1 = pts s + buffer_duration s b1"
    unfolding s1 by (rule push_valid_effect [OF assms(1)])+
  have "map fst (appsrc s2) = map fst (appsrc s1) @
      [\<lparr>buf_data = b2, buf_pts = pts s1, buf_duration = buffer_duration s1 b2\<rparr>]"
    unfolding s2 by (rule push_valid_effect [OF v2])
  then show ?thesis by (simp only: a1 p1 d2 append_assoc append.simps)
qed

theorem sequential_pushes_back_to_back_witness:
  "passes_validation default_pcm2mp3 [0, 0] \<and> passes_validation default_pcm2mp3 [0, 0, 0, 0]
   \<and> map fst (appsrc (snd (push_pcm_data src_accepts [0, 0, 0, 0]
                               (snd (push_pcm_data src_accepts [0, 0] default_pcm2mp3))))) =
       [\<lparr>buf_data = [0, 0], buf_pts = 0, buf_duration = 31250\<rparr>,
        \<lparr>buf_data = [0, 0, 0, 0], buf_pts = 31250, buf_duration = 62500\<rparr>]"
  using sequential_pushes_back_to_back [where s = default_pcm2mp3 and ?b1.0 = "[0, 0]"
      and ?b2.0 = "[0, 0, 0, 0]" and src = src_accepts
      and ?o1.0 = "fst (push_pcm_data src_accepts [0, 0] default_pcm2mp3)"
      and ?s1.0 = "snd (push_pcm_data src_accepts [0, 0] default_pcm2mp3)"
      and ?o2.0 = "fst (push_pcm_data src_accepts [0, 0, 0, 0]
                     (snd (push_pcm_data src_accepts [0, 0] default_pcm2mp3)))"
      and ?s2.0 = "snd (push_pcm_data src_accepts [0, 0, 0, 0]
                     (snd (push_pcm_data src_accepts [0, 0] default_pcm2mp3)))"]
  by (simp add: passes_validation_default buffer_duration_default) (simp add: default_eq)

text \<open>
  Claim C3. With a sample size other than zero, \<^verbatim>\<open>push_pcm_data\<close> ends in the size
  error exactly when the buffer is non-empty and its size is not a multiple of the sample
  size (on \<^verbatim>\<open>std::size_t\<close>, and for a vector of fewer than \<open>2 ^ 64\<close> bytes the same
  on the length). An empty buffer returns at once with the object untouched, and a call
  that ends in the size error leaves the object, and so the counter, as it was.
\<close>
theorem push_pcm_data_invalid_size:
  "(sample_size s \<noteq> 0 \<longrightarrow>
      (fst (push_pcm_data src data s) = InvalidBufferSizeError
         \<longleftrightarrow> data \<noteq> [] \<and> size_v data mod sample_size s \<noteq> 0)
      \<and> (length data < 2 ^ 64 \<longrightarrow>
           (size_v data mod sample_size s \<noteq> 0 \<longleftrightarrow> length data mod unat (sample_size s) \<noteq> 0)))
   \<and> push_pcm_data src [] s = (Returns, s)
   \<and> (fst (push_pcm_data src data s) = InvalidBufferSizeError
         \<longrightarrow> snd (push_pcm_data src data s) = s)"
proof (intro conjI impI)
  assume ss: "sample_size s \<noteq> 0"
  show "fst (push_pcm_data src data s) = InvalidBufferSizeError
         \<longleftrightarrow> data \<noteq> [] \<and> size_v data mod sample_size s \<noteq> 0"
    using ss by (simp add: push_pcm_data_def Let_def push_error_not_invalid invalid_not_returns [symmetric])
next
  assume ss: "sample_size s \<noteq> 0" and len: "length data < 2 ^ 64"
  have "unat (size_v data mod sample_size s) = length data mod unat (sample_size s)"
    using len by (simp add: unat_mod unat_size_v)
  then show "size_v data mod sample_size s \<noteq> 0 \<longleftrightarrow> length data mod unat (sample_size s) \<noteq> 0"
    by (metis unat_0_iff)
next
  show "push_pcm_data src [] s = (Returns, s)"
    by (simp add: push_pcm_data_def)
next
  assume "fst (push_pcm_data src data s) = InvalidBufferSizeError"
  then show "snd (push_pcm_data src data s) = s"
    by (simp add: push_pcm_data_def Let_def push_error_not_invalid invalid_not_returns [symmetric]
        invalid_not_ub [symmetric] split: if_splits)
qed

theorem push_pcm_data_invalid_size_witness:
  "sample_size default_pcm2mp3 \<noteq> 0 \<and> length [0, 0, 0 :: byte] < 2 ^ 64
   \<and> fst (push_pcm_data src_accepts [0, 0, 0] default_pcm2mp3) = InvalidBufferSizeError
   \<and> length [0, 0, 0 :: byte] mod unat (sample_size default_pcm2mp3) \<noteq> 0
   \<and> snd (push_pcm_data src_accepts [0, 0, 0] default_pcm2mp3) = default_pcm2mp3"
  using push_pcm_data_invalid_size [of default_pcm2mp3 src_accepts "[0, 0, 0]"]
  by (simp add: sample_size_default size_v_def)

text \<open>
  Claim C4. \<^verbatim>\<open>push_silence\<close> hands one zero-filled buffer of
  \<open>num_samples \<times> sample_size\<close> bytes to one \<^verbatim>\<open>push_pcm_data\<close> call, and one second
  on the default component is 64000 zero bytes. The sample count is taken modulo
  \<open>2 ^ 32\<close> before the division: 134218 ms on the default component is 4294976 samples,
  and the header computes 8 and pushes 16 bytes.
\<close>
theorem push_silence_sample_count:
  "push_silence src duration_ms s =
     push_pcm_data src
       (replicate (unat (silence_num_samples s duration_ms) * unat (sample_size s)) 0) s
   \<and> unat (silence_num_samples s duration_ms) =
       (unat (rate s) * unat duration_ms) mod 2 ^ 32 div 1000
   \<and> push_silence src_accepts 1000 default_pcm2mp3 =
       (Returns, default_pcm2mp3\<lparr>pts := 1000000000,
          appsrc := [(\<lparr>buf_data = replicate 64000 0, buf_pts = 0,
                        buf_duration = 1000000000\<rparr>, GST_FLOW_OK)]\<rparr>)
   \<and> unat (rate default_pcm2mp3) * unat (134218 :: uint) div 1000 = 4294976
   \<and> unat (silence_num_samples default_pcm2mp3 134218) = 8
   \<and> map (\<lambda>b. length (buf_data (fst b)))
         (appsrc (snd (push_silence src_accepts 134218 default_pcm2mp3))) = [16]"
proof (intro conjI)
  show "push_silence src duration_ms s =
     push_pcm_data src
       (replicate (unat (silence_num_samples s duration_ms) * unat (sample_size s)) 0) s"
    by (rule push_silence_forwards)
  show "unat (silence_num_samples s duration_ms) =
       (unat (rate s) * unat duration_ms) mod 2 ^ 32 div 1000"
    by (rule unat_silence_num_samples)
  have "push_silence src_accepts 1000 default_pcm2mp3 =
      push_pcm_data src_accepts (replicate 64000 0) default_pcm2mp3"
    by (simp add: push_silence_def silence_buffer_size_default)
  also have "\<dots> = (Returns, default_pcm2mp3\<lparr>pts := 1000000000,
          appsrc := [(\<lparr>buf_data = replicate 64000 0, buf_pts = 0,
                        buf_duration = 1000000000\<rparr>, GST_FLOW_OK)]\<rparr>)"
    by (simp add: push_valid [OF passes_validation_one_second] Let_def
        buffer_duration_one_second src_accepts_def)
      (simp add: default_eq)
  finally show "push_silence src_accepts 1000 default_pcm2mp3 =
       (Returns, default_pcm2mp3\<lparr>pts := 1000000000,
          appsrc := [(\<lparr>buf_data = replicate 64000 0, buf_pts = 0,
                        buf_duration = 1000000000\<rparr>, GST_FLOW_OK)]\<rparr>)" .
  show "unat (rate default_pcm2mp3) * unat (134218 :: uint) div 1000 = 4294976"
    by (simp add: default_eq)
  show "unat (silence_num_samples default_pcm2mp3 134218) = 8"
    by (simp add: silence_num_samples_default)
  have v: "passes_validation default_pcm2mp3 (replicate 16 0)"
    by (simp add: passes_validation_def sample_size_default size_v_def)
  have "push_silence src_accepts 134218 default_pcm2mp3 =
      push_pcm_data src_accepts (replicate 16 0) default_pcm2mp3"
    by (simp add: push_silence_def silence_buffer_size_default)
  then show "map (\<lambda>b. length (buf_data (fst b)))
         (appsrc (snd (push_silence src_accepts 134218 default_pcm2mp3))) = [16]"
    by (simp add: push_valid [OF v] Let_def) (simp add: default_eq)
qed

text \<open>
  Claim C5. Two threads push one sample each into the default component. When one runs
  after the other, the second buffer is tagged with the end of the first. When both load
  the counter before either adds to it, both buffers carry the timestamp 0, although the
  counter ends at the sum of the two durations: the load and the add of one push are two
  operations, not one fetch-and-add.
\<close>
theorem concurrent_pushes_same_timestamp:
  "enter_push default_pcm2mp3 [0, 0] = Some one_sample
   \<and> map fst (appsrc (snd (run src_accepts [0, 0, 0, 1, 1, 1] [one_sample, one_sample]
                             default_pcm2mp3))) =
       [\<lparr>buf_data = [0, 0], buf_pts = 0, buf_duration = 31250\<rparr>,
        \<lparr>buf_data = [0, 0], buf_pts = 31250, buf_duration = 31250\<rparr>]
   \<and> map fst (appsrc (snd (run src_accepts [0, 1, 0, 1, 0, 1] [one_sample, one_sample]
                             default_pcm2mp3))) =
       [\<lparr>buf_data = [0, 0], buf_pts = 0, buf_duration = 31250\<rparr>,
        \<lparr>buf_data = [0, 0], buf_pts = 0, buf_duration = 31250\<rparr>]
   \<and> pts (snd (run src_accepts [0, 1, 0, 1, 0, 1] [one_sample, one_sample]
                  default_pcm2mp3)) = 62500"
proof (intro conjI)
  show e: "enter_push default_pcm2mp3 [0, 0] = Some one_sample"
    by (simp add: enter_push_valid [OF passes_validation_default(1)] buffer_duration_default
        one_sample_def)
  show "map fst (appsrc (snd (run src_accepts [0, 0, 0, 1, 1, 1] [one_sample, one_sample]
                             default_pcm2mp3))) =
       [\<lparr>buf_data = [0, 0], buf_pts = 0, buf_duration = 31250\<rparr>,
        \<lparr>buf_data = [0, 0], buf_pts = 31250, buf_duration = 31250\<rparr>]"
    by (simp add: one_sample_def thread_step_def Let_def default_eq)
  show "map fst (appsrc (snd (run src_accepts [0, 1, 0, 1, 0, 1] [one_sample, one_sample]
                             default_pcm2mp3))) =
       [\<lparr>buf_data = [0, 0], buf_pts = 0, buf_duration = 31250\<rparr>,
        \<lparr>buf_data = [0, 0], buf_pts = 0, buf_duration = 31250\<rparr>]"
    using run_interleaved(1) [OF e e passes_validation_default(1) passes_validation_default(1),
        of src_accepts]
    by (simp add: buffer_duration_default) (simp add: default_eq)
  show "pts (snd (run src_accepts [0, 1, 0, 1, 0, 1] [one_sample, one_sample]
                  default_pcm2mp3)) = 62500"
    using run_interleaved(2) [OF e e passes_validation_default(1) passes_validation_default(1),
        of src_accepts]
    by (simp add: buffer_duration_default) (simp add: default_eq)
qed

text \<open>
  Claim C6. \<^verbatim>\<open>start\<close>, \<^verbatim>\<open>stop\<close>, \<^verbatim>\<open>push_pcm_data\<close> and
  \<^verbatim>\<open>push_silence\<close> leave rate, channels, depth and format as they were, however they
  end; in particular \<^verbatim>\<open>stop\<close> does not clear the format.
\<close>
theorem configuration_immutable:
  "config (snd (start ret s)) = config s
   \<and> config (snd (stop consumer_exits s)) = config s
   \<and> config (snd (push_pcm_data src data s)) = config s
   \<and> config (snd (push_silence src duration_ms s)) = config s
   \<and> format (snd (stop consumer_exits s)) = format s"
proof (intro conjI)
  show "config (snd (start ret s)) = config s"
    by (simp add: config_def start_def set_state_def Let_def)
  show c: "config (snd (stop consumer_exits s)) = config s"
    by (simp add: config_def stop_def set_state_def Let_def)
  show p: "config (snd (push_pcm_data src data s)) = config s" for data
    by (simp add: config_def push_pcm_data_config)
  show "config (snd (push_silence src duration_ms s)) = config s"
    unfolding push_silence_def Let_def by (rule p)
  show "format (snd (stop consumer_exits s)) = format s"
    using c by (simp add: config_def)
qed

text \<open>
  Claim C7. A component just constructed, and one on which \<^verbatim>\<open>stop\<close> has returned, has
  no joinable thread. On a component with no joinable thread \<^verbatim>\<open>stop\<close> returns
  whatever the consumer would do (it is not joined), sets the stop flag, requests
  \<^verbatim>\<open>GST_STATE_NULL\<close> of the pipeline, and a second \<^verbatim>\<open>stop\<close> changes nothing more.
\<close>
theorem stop_when_not_running:
  "\<not> processing_thread (snd (construct g r c d f))
   \<and> (fst (stop e0 s0) = Returns \<longrightarrow> \<not> processing_thread (snd (stop e0 s0)))
   \<and> (\<not> processing_thread s \<longrightarrow>
        fst (stop e s) = Returns
        \<and> snd (stop e s) = s\<lparr>processing_stop := True,
                               pipeline := map_option (\<lambda>_. GST_STATE_NULL) (pipeline s)\<rparr>
        \<and> \<not> processing_thread (snd (stop e s))
        \<and> stop e' (snd (stop e s)) = (Returns, snd (stop e s)))"
proof (intro conjI impI)
  show "\<not> processing_thread (snd (construct g r c d f))"
    by (simp add: construct_def initialize_pipeline_def Let_def)
  show "\<not> processing_thread (snd (stop e0 s0))" if "fst (stop e0 s0) = Returns"
  proof (cases "processing_thread s0")
    case True
    with that show ?thesis by (cases e0) (simp_all add: stop_joinable)
  next
    case False
    then show ?thesis by (simp add: stop_not_joinable)
  qed
next
  assume n: "\<not> processing_thread s"
  show "fst (stop e s) = Returns"
    and "snd (stop e s) = s\<lparr>processing_stop := True,
                               pipeline := map_option (\<lambda>_. GST_STATE_NULL) (pipeline s)\<rparr>"
    and "\<not> processing_thread (snd (stop e s))"
    using n by (simp_all add: stop_not_joinable)
  show "stop e' (snd (stop e s)) = (Returns, snd (stop e s))"
  proof -
    have "\<not> processing_thread (snd (stop e s))"
      using n by (simp add: stop_not_joinable)
    then have "stop e' (snd (stop e s)) =
        (Returns, (snd (stop e s))\<lparr>processing_stop := True,
           pipeline := map_option (\<lambda>_. GST_STATE_NULL) (pipeline (snd (stop e s)))\<rparr>)"
      by (rule stop_not_joinable)
    also have "\<dots> = (Returns, snd (stop e s))"
      using n by (cases "pipeline s") (simp_all add: stop_not_joinable)
    finally show ?thesis .
  qed
qed

theorem stop_when_not_running_witness:
  "\<not> processing_thread default_pcm2mp3
   \<and> fst (stop True default_pcm2mp3) = Returns
   \<and> snd (stop True default_pcm2mp3) = default_pcm2mp3\<lparr>processing_stop := True\<rparr>
   \<and> stop True (snd (stop True default_pcm2mp3)) = (Returns, snd (stop True default_pcm2mp3))"
  using stop_when_not_running [of gst_ok 32000 1 16 "''S16LE''" True default_pcm2mp3
      default_pcm2mp3 True True]
  by (simp add: default_pcm2mp3_def [symmetric]) (simp add: default_eq stop_def set_state_def)

text \<open>
  Claim C8. When a buffer passes validation and the Source stage answers the push with
  anything but \<^verbatim>\<open>GST_FLOW_OK\<close>, \<^verbatim>\<open>push_pcm_data\<close> throws the push error whose
  message ends in the name of that flow return, and the buffer has been handed to the
  Source stage once, with no second attempt.
\<close>
theorem push_pcm_data_rejected:
  assumes "passes_validation s data"
    and "src (s\<lparr>pts := pts s + buffer_duration s data\<rparr>)
           \<lparr>buf_data = data, buf_pts = pts s, buf_duration = buffer_duration s data\<rparr> = ret"
    and "ret \<noteq> GST_FLOW_OK"
  shows "fst (push_pcm_data src data s) = PushError (gst_flow_get_name ret)
    \<and> PushError (gst_flow_get_name ret) =
        Throws (''pcm2mp3 -> failed to push buffer into appsrc: '' @ gst_flow_get_name ret)
    \<and> appsrc (snd (push_pcm_data src data s)) =
        appsrc s @ [(\<lparr>buf_data = data, buf_pts = pts s,
                      buf_duration = buffer_duration s data\<rparr>, ret)]"
  using assms(2,3) by (simp add: push_valid [OF assms(1)] Let_def) (simp add: PushError_def)

theorem push_pcm_data_rejected_witness:
  "passes_validation default_pcm2mp3 [0, 0] \<and> GST_FLOW_FLUSHING \<noteq> GST_FLOW_OK
   \<and> fst (push_pcm_data src_flushing [0, 0] default_pcm2mp3) =
       Throws ''pcm2mp3 -> failed to push buffer into appsrc: flushing''
   \<and> length (appsrc (snd (push_pcm_data src_flushing [0, 0] default_pcm2mp3))) = 1"
  using push_pcm_data_rejected [OF passes_validation_default(1), of src_flushing GST_FLOW_FLUSHING]
  by (simp add: passes_validation_default src_flushing_def) (simp add: default_eq)

text \<open>
  Claim C9, as the header has it. With at least one channel, a depth of at least 8, and
  a product \<open>channels \<times> (depth / 8)\<close> below \<open>2 ^ 32\<close>, the sample size is that
  product, it is positive, and neither push operation divides by zero. With no channel
  or a depth below 8 the sample size is zero: every non-empty \<^verbatim>\<open>push_pcm_data\<close>
  divides by zero, and \<^verbatim>\<open>push_silence\<close> builds an empty buffer and returns.
\<close>
theorem sample_size_divisor:
  "(1 \<le> channels s \<and> 8 \<le> depth s \<and> unat (channels s) * (unat (depth s) div 8) < 2 ^ 32 \<longrightarrow>
      0 < unat (sample_size s)
      \<and> unat (sample_size s) = unat (channels s) * (unat (depth s) div 8)
      \<and> fst (push_pcm_data src data s) \<noteq> Undefined_behaviour
      \<and> fst (push_silence src duration_ms s) \<noteq> Undefined_behaviour)
   \<and> (channels s = 0 \<or> depth s < 8 \<longrightarrow>
        sample_size s = 0
        \<and> (data \<noteq> [] \<longrightarrow> fst (push_pcm_data src data s) = Undefined_behaviour)
        \<and> push_silence src duration_ms s = (Returns, s))"
proof (intro conjI impI)
  assume a: "1 \<le> channels s \<and> 8 \<le> depth s \<and> unat (channels s) * (unat (depth s) div 8) < 2 ^ 32"
  then have c: "1 \<le> unat (channels s)" and d: "8 \<le> unat (depth s)"
    by (simp_all add: word_le_nat_alt)
  from d have "8 div 8 \<le> unat (depth s) div 8" by (rule div_le_mono)
  then have d8: "1 \<le> unat (depth s) div 8" by simp
  show e: "unat (sample_size s) = unat (channels s) * (unat (depth s) div 8)"
    using a by (simp add: unat_sample_size)
  from c d8 have "1 * 1 \<le> unat (channels s) * (unat (depth s) div 8)"
    by (rule mult_le_mono)
  then show p: "0 < unat (sample_size s)" by (simp add: e)
  then have nz: "sample_size s \<noteq> 0" by (simp add: unat_gt_0)
  show "fst (push_pcm_data src data s) \<noteq> Undefined_behaviour" for data
    using nz by (simp add: push_pcm_data_ub_iff)
  then show "fst (push_silence src duration_ms s) \<noteq> Undefined_behaviour"
    by (simp add: push_silence_def Let_def)
next
  assume z: "channels s = 0 \<or> depth s < 8"
  then show s0: "sample_size s = 0" by (rule sample_size_zero)
  show "fst (push_pcm_data src data s) = Undefined_behaviour" if "data \<noteq> []"
    using that s0 by (simp add: push_pcm_data_ub_iff)
  show "push_silence src duration_ms s = (Returns, s)"
    using s0 by (rule push_silence_empty)
qed

theorem sample_size_divisor_witness:
  "1 \<le> channels default_pcm2mp3 \<and> 8 \<le> depth default_pcm2mp3
   \<and> unat (channels default_pcm2mp3) * (unat (depth default_pcm2mp3) div 8) < 2 ^ 32
   \<and> unat (sample_size default_pcm2mp3) = 2
   \<and> fst (push_pcm_data src_accepts [0, 0] default_pcm2mp3) \<noteq> Undefined_behaviour
   \<and> channels no_channels = 0 \<and> [0 :: byte] \<noteq> []
   \<and> fst (push_pcm_data src_accepts [0] no_channels) = Undefined_behaviour"
  using sample_size_divisor [of default_pcm2mp3 src_accepts "[0, 0]" 1000]
    sample_size_divisor [of no_channels src_accepts "[0]" 1000]
  by (simp add: default_eq no_channels_eq)

text \<open>
  \<open>2 ^ 31\<close> channels of 16 bits: both arguments are in the range of the claim, the
  product wraps to zero, and a one-byte push divides by zero.
\<close>

theorem sample_size_divisor_counterexample:
  "1 \<le> channels many_channels \<and> 8 \<le> depth many_channels
   \<and> sample_size many_channels = 0
   \<and> fst (push_pcm_data src_accepts [0] many_channels) = Undefined_behaviour"
  by (simp add: push_pcm_data_ub_iff) (simp add: many_channels_eq sample_size_def)

text \<open>
  Claim C10, as the header has it. \<^verbatim>\<open>push_silence\<close> multiplies in 32 bits before it
  divides: the sample count is \<open>((rate \<times> duration_ms) mod 2 ^ 32) / 1000\<close> and the buffer
  size is that count times the sample size. While the product stays below \<open>2 ^ 32\<close> the
  count is the exact \<open>rate \<times> duration_ms / 1000\<close>; from \<open>2 ^ 32\<close> on (with a rate of 32000,
  every duration above 134217) the count is smaller than the exact one, and so is the
  buffer size when the sample size is not zero.
\<close>
theorem silence_num_samples_wraps:
  "unat (silence_num_samples s duration_ms) =
     (unat (rate s) * unat duration_ms) mod 2 ^ 32 div 1000
   \<and> unat (silence_buffer_size s duration_ms) =
       unat (silence_num_samples s duration_ms) * unat (sample_size s)
   \<and> (unat (rate s) * unat duration_ms < 2 ^ 32 \<longrightarrow>
        unat (silence_num_samples s duration_ms) = unat (rate s) * unat duration_ms div 1000)
   \<and> (2 ^ 32 \<le> unat (rate s) * unat duration_ms \<longrightarrow>
        unat (silence_num_samples s duration_ms) < unat (rate s) * unat duration_ms div 1000
        \<and> (sample_size s \<noteq> 0 \<longrightarrow>
             unat (silence_buffer_size s duration_ms)
               < unat (rate s) * unat duration_ms div 1000 * unat (sample_size s)))
   \<and> (rate s = 32000 \<and> 134217 < duration_ms \<longrightarrow> 2 ^ 32 \<le> unat (rate s) * unat duration_ms)"
proof (intro conjI impI)
  show n: "unat (silence_num_samples s duration_ms) =
     (unat (rate s) * unat duration_ms) mod 2 ^ 32 div 1000"
    by (rule unat_silence_num_samples)
  show b: "unat (silence_buffer_size s duration_ms) =
       unat (silence_num_samples s duration_ms) * unat (sample_size s)"
    by (rule unat_silence_buffer_size)
  show "unat (silence_num_samples s duration_ms) = unat (rate s) * unat duration_ms div 1000"
    if "unat (rate s) * unat duration_ms < 2 ^ 32"
    using that by (simp add: n)
  show l: "unat (silence_num_samples s duration_ms) < unat (rate s) * unat duration_ms div 1000"
    if "2 ^ 32 \<le> unat (rate s) * unat duration_ms"
  proof -
    from that have "4294967296 \<le> unat (rate s) * unat duration_ms" by simp
    then have "(unat (rate s) * unat duration_ms) mod 4294967296 div 1000
                 < unat (rate s) * unat duration_ms div 1000"
      by (rule wrapped_quotient_less)
    then show ?thesis by (simp add: n)
  qed
  show "unat (silence_buffer_size s duration_ms)
          < unat (rate s) * unat duration_ms div 1000 * unat (sample_size s)"
    if "2 ^ 32 \<le> unat (rate s) * unat duration_ms" and "sample_size s \<noteq> 0"
  proof -
    have "0 < unat (sample_size s)" using that(2) by (simp add: unat_gt_0)
    with l [OF that(1)] show ?thesis by (simp add: b)
  qed
  show "2 ^ 32 \<le> unat (rate s) * unat duration_ms" if "rate s = 32000 \<and> 134217 < duration_ms"
  proof -
    from that have "unat (134217 :: uint) < unat duration_ms"
      by (simp only: word_less_nat_alt)
    then have "134218 \<le> unat duration_ms" by simp
    then have "32000 * 134218 \<le> 32000 * unat duration_ms" by (rule mult_le_mono2)
    with that show ?thesis by simp
  qed
qed

theorem silence_num_samples_wraps_witness:
  "unat (rate default_pcm2mp3) * unat (134217 :: uint) < 2 ^ 32
   \<and> unat (silence_num_samples default_pcm2mp3 134217) = 32000 * 134217 div 1000
   \<and> 2 ^ 32 \<le> unat (rate default_pcm2mp3) * unat (134218 :: uint)
   \<and> rate default_pcm2mp3 = 32000 \<and> (134217 :: uint) < 134218
   \<and> sample_size default_pcm2mp3 \<noteq> 0
   \<and> unat (silence_num_samples default_pcm2mp3 134218) = 8
   \<and> unat (silence_buffer_size default_pcm2mp3 134218) = 16
   \<and> (8 :: nat) < 32000 * 134218 div 1000 \<and> (16 :: nat) < 32000 * 134218 div 1000 * 2"
  using silence_num_samples_wraps [of default_pcm2mp3 134217]
    silence_num_samples_wraps [of default_pcm2mp3 134218]
  by (simp add: silence_num_samples_default silence_buffer_size_default sample_size_default)
    (simp add: default_eq)

text \<open>
  With no channel the sample size is zero, and the buffer size is zero whether the
  product wraps or not: it is not smaller than the exact one.
\<close>

theorem silence_num_samples_wraps_counterexample:
  "2 ^ 32 \<le> unat (rate no_channels) * unat (134218 :: uint)
   \<and> unat (silence_buffer_size no_channels 134218) = 0
   \<and> unat (rate no_channels) * unat (134218 :: uint) div 1000 * unat (sample_size no_channels) = 0
   \<and> \<not> unat (silence_buffer_size no_channels 134218)
         < unat (rate no_channels) * unat (134218 :: uint) div 1000 * unat (sample_size no_channels)"
  by (simp add: no_channels_eq silence_buffer_size_def sample_size_def)

end
